theory Spec2Isabelle
  imports Complex_Main
begin

section \<open>JavaScript numbers\<close>

text \<open>
  The library computes on JavaScript numbers. They are read here as real numbers
  (rounding and overflow are abstracted away) extended by the three special values
  that steer the control flow of the event solver: not-a-number and the two
  infinities. Where a computation stays finite on finite inputs (sums, products,
  sine, cosine) it is written on \<open>real\<close>; where the source can produce or test a
  special value (a division by a computed quantity, \<open>Math.sqrt\<close>, \<open>Math.asin\<close>,
  \<open>isNaN\<close>, the \<open>NaN\<close> literal) it is written on \<open>jsnum\<close>. Signed zeros are not
  distinguished: a nonzero number divided by zero takes the sign of the numerator.
\<close>

datatype jsnum = NaN | NegInf | Fin real | PosInf

fun js_neg :: "jsnum \<Rightarrow> jsnum" where
  "js_neg NaN = NaN"
| "js_neg NegInf = PosInf"
| "js_neg PosInf = NegInf"
| "js_neg (Fin x) = Fin (- x)"

fun js_add :: "jsnum \<Rightarrow> jsnum \<Rightarrow> jsnum" where
  "js_add (Fin x) (Fin y) = Fin (x + y)"
| "js_add NaN _ = NaN"
| "js_add _ NaN = NaN"
| "js_add PosInf NegInf = NaN"
| "js_add NegInf PosInf = NaN"
| "js_add PosInf _ = PosInf"
| "js_add NegInf _ = NegInf"
| "js_add _ PosInf = PosInf"
| "js_add _ NegInf = NegInf"

definition js_sub :: "jsnum \<Rightarrow> jsnum \<Rightarrow> jsnum" where
  "js_sub a b = js_add a (js_neg b)"

text \<open>The sign of a number that is not NaN: \<open>-1\<close>, \<open>0\<close> or \<open>1\<close>.\<close>

fun js_sign :: "jsnum \<Rightarrow> real" where
  "js_sign NaN = 0"
| "js_sign NegInf = - 1"
| "js_sign PosInf = 1"
| "js_sign (Fin x) = sgn x"

definition js_inf_of_sign :: "real \<Rightarrow> jsnum" where
  "js_inf_of_sign s = (if s = 0 then NaN else if 0 < s then PosInf else NegInf)"

fun js_mul :: "jsnum \<Rightarrow> jsnum \<Rightarrow> jsnum" where
  "js_mul (Fin x) (Fin y) = Fin (x * y)"
| "js_mul NaN _ = NaN"
| "js_mul _ NaN = NaN"
| "js_mul a b = js_inf_of_sign (js_sign a * js_sign b)"

fun js_div :: "jsnum \<Rightarrow> jsnum \<Rightarrow> jsnum" where
  "js_div (Fin x) (Fin y) = (if y = 0 then js_inf_of_sign (sgn x) else Fin (x / y))"
| "js_div NaN _ = NaN"
| "js_div _ NaN = NaN"
| "js_div (Fin x) _ = Fin 0"
| "js_div a (Fin y) = js_inf_of_sign (js_sign a * (if y < 0 then - 1 else 1))"
| "js_div _ _ = NaN"

fun js_abs :: "jsnum \<Rightarrow> jsnum" where
  "js_abs NaN = NaN"
| "js_abs (Fin x) = Fin \<bar>x\<bar>"
| "js_abs _ = PosInf"

fun js_sqrt :: "jsnum \<Rightarrow> jsnum" where
  "js_sqrt (Fin x) = (if x < 0 then NaN else Fin (sqrt x))"
| "js_sqrt PosInf = PosInf"
| "js_sqrt _ = NaN"

text \<open>Comparisons are false as soon as one side is NaN.\<close>

fun js_le :: "jsnum \<Rightarrow> jsnum \<Rightarrow> bool" where
  "js_le NaN _ = False"
| "js_le _ NaN = False"
| "js_le NegInf _ = True"
| "js_le _ PosInf = True"
| "js_le (Fin x) (Fin y) = (x \<le> y)"
| "js_le _ _ = False"

fun js_lt :: "jsnum \<Rightarrow> jsnum \<Rightarrow> bool" where
  "js_lt NaN _ = False"
| "js_lt _ NaN = False"
| "js_lt (Fin x) (Fin y) = (x < y)"
| "js_lt NegInf NegInf = False"
| "js_lt PosInf PosInf = False"
| "js_lt NegInf _ = True"
| "js_lt _ PosInf = True"
| "js_lt _ _ = False"

definition js_ge :: "jsnum \<Rightarrow> jsnum \<Rightarrow> bool" where
  "js_ge a b = js_le b a"

fun isNaN :: "jsnum \<Rightarrow> bool" where
  "isNaN NaN = True"
| "isNaN _ = False"

text \<open>\<open>Math.asin\<close> is NaN outside \<open>[-1, 1]\<close>; sine and cosine are NaN at the infinities.\<close>

fun Math_asin :: "jsnum \<Rightarrow> jsnum" where
  "Math_asin (Fin x) = (if - 1 \<le> x \<and> x \<le> 1 then Fin (arcsin x) else NaN)"
| "Math_asin _ = NaN"

fun Math_sin :: "jsnum \<Rightarrow> jsnum" where
  "Math_sin (Fin x) = Fin (sin x)"
| "Math_sin _ = NaN"

fun Math_cos :: "jsnum \<Rightarrow> jsnum" where
  "Math_cos (Fin x) = Fin (cos x)"
| "Math_cos _ = NaN"

text \<open>\<open>Math.atan2(y, x)\<close> on finite arguments, with values in \<open>(-\<pi>, \<pi>]\<close>.\<close>

definition Math_atan2 :: "real \<Rightarrow> real \<Rightarrow> real" where
  "Math_atan2 y x =
     (if 0 < x then arctan (y / x)
      else if x < 0 then (if 0 \<le> y then arctan (y / x) + pi else arctan (y / x) - pi)
      else if 0 < y then pi / 2
      else if y < 0 then - (pi / 2)
      else 0)"

section \<open>Lunar position (lib/lunar.js)\<close>

text \<open>
  Names follow the source. An identifier cannot start with an underscore, so the
  internal function \<open>_f\<close> is \<open>f\<close> here, or \<open>f_t\<close> where the module also exports a
  wrapper \<open>f\<close> that takes a millisecond timestamp; the exported \<open>set\<close> is \<open>set_js\<close>.
  Angles of the internal functions are in radians, their instants in the unit of
  \<open>julian.to\<close>.
\<close>

definition RAD :: real where
  "RAD = pi / 180"

definition AU :: real where
  "AU = 1 / (1495978707 / 10)"

definition limit_angle :: "real \<Rightarrow> real" where
  "limit_angle radians = radians - of_int \<lfloor>radians / (2 * pi)\<rfloor> * (2 * pi)"

definition Q0 :: real where "Q0 = (218316 / 1000) * RAD"
definition Q1 :: real where "Q1 = (13176396 / 1000000) * RAD"
definition M0 :: real where "M0 = (134963 / 1000) * RAD"
definition M1 :: real where "M1 = (13064993 / 1000000) * RAD"
definition F0 :: real where "F0 = (93272 / 1000) * RAD"
definition F1 :: real where "F1 = (1322935 / 100000) * RAD"
definition L0 :: real where "L0 = (6289 / 1000) * RAD"
definition L1 :: real where "L1 = (5128 / 1000) * RAD"
definition E0 :: real where "E0 = (23439 / 1000) * RAD"
definition E1 :: real where "E1 = - (36 / 100000000) * RAD"
definition D0 :: real where "D0 = 385001 * AU"
definition D1 :: real where "D1 = - 20905 * AU"

definition ecliptic_equinox_longitude :: "real \<Rightarrow> real" where
  "ecliptic_equinox_longitude t = Q0 + Q1 * t"

definition mean_anomaly :: "real \<Rightarrow> real" where
  "mean_anomaly t = M0 + M1 * t"

definition mean_distance :: "real \<Rightarrow> real" where
  "mean_distance t = F0 + F1 * t"

definition longitude_t :: "real \<Rightarrow> real" where
  "longitude_t t = ecliptic_equinox_longitude t + L0 * sin (mean_anomaly t)"

definition latitude_t :: "real \<Rightarrow> real" where
  "latitude_t t = L1 * sin (mean_distance t)"

definition obliquity_t :: "real \<Rightarrow> real" where
  "obliquity_t t = E0 + E1 * t"

definition distance_t :: "real \<Rightarrow> real" where
  "distance_t t = D0 + D1 * cos (mean_anomaly t)"

definition right_ascension_direct :: "real \<Rightarrow> real \<Rightarrow> real \<Rightarrow> real" where
  "right_ascension_direct lat lon obl =
     Math_atan2 (sin lon * cos obl - tan lat * sin obl) (cos lon)"

definition right_ascension_t :: "real \<Rightarrow> real" where
  "right_ascension_t t = right_ascension_direct (latitude_t t) (longitude_t t) (obliquity_t t)"

definition declination_direct :: "real \<Rightarrow> real \<Rightarrow> real \<Rightarrow> jsnum" where
  "declination_direct lat lon obl =
     Math_asin (Fin (sin lat * cos obl + cos lat * sin obl * sin lon))"

definition declination_t :: "real \<Rightarrow> jsnum" where
  "declination_t t = declination_direct (latitude_t t) (longitude_t t) (obliquity_t t)"

definition hour_angle_direct :: "real \<Rightarrow> real \<Rightarrow> real" where
  "hour_angle_direct lst ra = limit_angle lst - limit_angle ra"

definition transit_direct :: "real \<Rightarrow> real \<Rightarrow> real" where
  "transit_direct t ha = t - ha * (12 / pi / 24)"

text \<open>
  \<open>sidereal.local\<close> lives in a module that is not part of the sources at hand; every
  function that calls it takes it as the parameter \<open>sl\<close> (instant, observer longitude
  to local sidereal time).
\<close>

definition hour_angle :: "(real \<Rightarrow> real \<Rightarrow> real) \<Rightarrow> real \<Rightarrow> real \<Rightarrow> real" where
  "hour_angle sl t lon = hour_angle_direct (sl t lon) (right_ascension_t t)"

definition hour_angle_iterative ::
  "(real \<Rightarrow> real \<Rightarrow> real) \<Rightarrow> real \<Rightarrow> real \<Rightarrow> real \<Rightarrow> real" where
  "hour_angle_iterative sl t lon ha0 =
     (let t1 = transit_direct t ha0;
          ha1 = hour_angle sl t1 lon + ha0
      in ha1)"

definition hour_angle_refined :: "(real \<Rightarrow> real \<Rightarrow> real) \<Rightarrow> real \<Rightarrow> real \<Rightarrow> real" where
  "hour_angle_refined sl t lon =
     (let ha = hour_angle sl t lon;
          ha = hour_angle_iterative sl t lon ha;
          ha = hour_angle_iterative sl t lon ha;
          ha = hour_angle_iterative sl t lon ha;
          ha = hour_angle_iterative sl t lon ha
      in ha)"

text \<open>
  The refinement as the specification words it: a fixed number of rounds, each of
  which moves the instant back by \<open>ha / (2\<pi>)\<close> of a day (24 hours), reads the hour
  angle there and adds it to the running estimate.
\<close>

definition refine_round :: "(real \<Rightarrow> real \<Rightarrow> real) \<Rightarrow> real \<Rightarrow> real \<Rightarrow> real \<Rightarrow> real" where
  "refine_round sl t lon ha = ha + hour_angle sl (t - ha / (2 * pi) * 1) lon"

definition refined_spec :: "nat \<Rightarrow> (real \<Rightarrow> real \<Rightarrow> real) \<Rightarrow> real \<Rightarrow> real \<Rightarrow> real" where
  "refined_spec n sl t lon = (refine_round sl t lon ^^ n) (hour_angle sl t lon)"

definition hours_later :: "real \<Rightarrow> jsnum \<Rightarrow> jsnum" where
  "hours_later t hrs = js_add (Fin t) (js_div hrs (Fin 24))"

text \<open>
  The transit search. The instant \<open>t\<close> is finite, so \<open>later_t\<close> is; the last case of
  the match is never taken.
\<close>

definition transit_t :: "(real \<Rightarrow> real \<Rightarrow> real) \<Rightarrow> real \<Rightarrow> real \<Rightarrow> real \<Rightarrow> jsnum" where
  "transit_t sl t lat lon =
     (case hours_later t (Fin 24) of
        Fin later_t \<Rightarrow>
          (let result = transit_direct later_t (hour_angle_refined sl later_t lon)
           in if result \<le> later_t then Fin result
              else (let result = transit_direct t (hour_angle_refined sl t lon)
                    in if result \<ge> t then Fin result else NaN))
      | _ \<Rightarrow> NaN)"

text \<open>The elevation at an instant; a non-finite instant makes every term NaN.\<close>

definition elevation_t :: "(real \<Rightarrow> real \<Rightarrow> real) \<Rightarrow> jsnum \<Rightarrow> real \<Rightarrow> real \<Rightarrow> jsnum" where
  "elevation_t sl T lat lon =
     (case T of
        Fin t \<Rightarrow>
          (let decl = declination_t t;
               ha = hour_angle sl t lon
           in Math_asin
                (js_add (js_mul (Fin (sin lat)) (Math_sin decl))
                   (js_mul (js_mul (Fin (cos lat)) (Math_cos decl)) (Fin (cos ha)))))
      | _ \<Rightarrow> NaN)"

definition PARALLAX :: real where
  "PARALLAX = 23212879051524586 / 10000000000000000000"

text \<open>
  One segment of the sweep: the parabola through the three samples \<open>h0\<close>, \<open>h1\<close>, \<open>h2\<close>
  (at \<open>-1\<close>, \<open>0\<close>, \<open>1\<close>), its vertex value, and the roots counted inside \<open>[-1, 1]\<close>.
  When the discriminant test fails \<open>x1\<close> and \<open>x2\<close> stay unassigned in the source and
  are not read; they are NaN here.
\<close>

record parabola =
  roots :: nat
  x1 :: jsnum
  x2 :: jsnum
  ye :: jsnum

definition fit_parabola :: "jsnum \<Rightarrow> jsnum \<Rightarrow> jsnum \<Rightarrow> parabola" where
  "fit_parabola h0 h1 h2 =
     (let a = js_sub (js_div (js_add h2 h0) (Fin 2)) h1;
          b = js_div (js_sub h2 h0) (Fin 2);
          xe = js_div (js_neg b) (js_mul (Fin 2) a);
          ye = js_add (js_mul (js_add (js_mul a xe) b) xe) h1;
          d = js_sub (js_mul b b) (js_mul (js_mul (Fin 4) a) h1)
      in if js_ge d (Fin 0) then
           (let dx = js_div (js_sqrt d) (js_mul (js_abs a) (Fin 2));
                x1 = js_sub xe dx;
                x2 = js_add xe dx;
                roots = (if js_le (js_abs x1) (Fin 1) then 1 else 0)
                      + (if js_le (js_abs x2) (Fin 1) then 1 else 0);
                x1 = (if js_lt x1 (Fin (- 1)) then x2 else x1)
            in \<lparr>roots = roots, x1 = x1, x2 = x2, ye = ye\<rparr>)
         else \<lparr>roots = 0, x1 = NaN, x2 = NaN, ye = ye\<rparr>)"

text \<open>
  The branches that store a crossing found in the segment at hour \<open>i\<close> into the pair
  (moonrise, moonset).
\<close>

definition store_events :: "nat \<Rightarrow> jsnum \<Rightarrow> parabola \<Rightarrow> jsnum \<times> jsnum \<Rightarrow> jsnum \<times> jsnum" where
  "store_events i h0 p ev =
     (let moonrise = fst ev; moonset = snd ev
      in if roots p = 1 then
           (if js_lt h0 (Fin 0) \<and> isNaN moonrise then (js_add (Fin (real i)) (x1 p), moonset)
            else if isNaN moonset then (moonrise, js_add (Fin (real i)) (x1 p))
            else (moonrise, moonset))
         else if roots p = 2 then
           (let moonrise = (if isNaN moonrise
                            then js_add (Fin (real i)) (if js_lt (ye p) (Fin 0) then x2 p else x1 p)
                            else moonrise);
                moonset = (if isNaN moonset
                           then js_add (Fin (real i)) (if js_lt (ye p) (Fin 0) then x1 p else x2 p)
                           else moonset)
            in (moonrise, moonset))
         else (moonrise, moonset))"

text \<open>
  The elevation above the threshold \<open>h = -PARALLAX\<close>, \<open>i\<close> hours after \<open>t\<close>. The
  elevation as a function of the instant is the parameter \<open>el\<close>.
\<close>

definition sample :: "(jsnum \<Rightarrow> jsnum) \<Rightarrow> real \<Rightarrow> nat \<Rightarrow> jsnum" where
  "sample el t i = js_sub (el (hours_later t (Fin (real i)))) (Fin (- PARALLAX))"

text \<open>
  The loop \<open>for (let i = 0; i <= 24; i += 2)\<close> on the state \<open>(h0, h1, moonrise, moonset)\<close>;
  the \<open>break\<close> returns the events at once.
\<close>

function sweep ::
  "(jsnum \<Rightarrow> jsnum) \<Rightarrow> real \<Rightarrow> nat \<Rightarrow> jsnum \<times> jsnum \<times> jsnum \<times> jsnum \<Rightarrow> jsnum \<times> jsnum" where
  "sweep el t i (h0, h1, moonrise, moonset) =
     (if i \<le> 24 then
        (let h1 = (if i \<noteq> 0 then sample el t i else h1);
             h2 = sample el t (i + 1);
             ev = store_events i h0 (fit_parabola h0 h1 h2) (moonrise, moonset)
         in if js_lt (fst ev) (Fin 24) \<and> js_lt (snd ev) (Fin 24) then ev
            else sweep el t (i + 2) (h2, h1, fst ev, snd ev))
      else (moonrise, moonset))"
  by pat_completeness auto

termination
  by (relation "measure (\<lambda>(el, t, i, st). 25 - i)") auto

declare sweep.simps [simp del]

record moon_events =
  moonrise :: jsnum
  moonset :: jsnum

definition rise_and_set_of :: "(jsnum \<Rightarrow> jsnum) \<Rightarrow> real \<Rightarrow> moon_events" where
  "rise_and_set_of el t =
     (let h0 = js_sub (el (Fin t)) (Fin (- PARALLAX));
          h1 = h0;
          ev = sweep el t 0 (h0, h1, NaN, NaN)
      in \<lparr>moonrise = hours_later t (fst ev), moonset = hours_later t (snd ev)\<rparr>)"

definition rise_and_set_t :: "(real \<Rightarrow> real \<Rightarrow> real) \<Rightarrow> real \<Rightarrow> real \<Rightarrow> real \<Rightarrow> moon_events" where
  "rise_and_set_t sl t lat lon = rise_and_set_of (\<lambda>T. elevation_t sl T lat lon) t"

text \<open>
  \<open>julian.to\<close> and \<open>julian.from\<close> live in a module that is not part of the sources at
  hand either; the exported functions take them as the parameters \<open>jt\<close> and \<open>jf\<close>.
\<close>

definition longitude :: "(real \<Rightarrow> real) \<Rightarrow> real \<Rightarrow> real" where
  "longitude jt ms = longitude_t (jt ms)"

definition latitude :: "(real \<Rightarrow> real) \<Rightarrow> real \<Rightarrow> real" where
  "latitude jt ms = latitude_t (jt ms)"

definition obliquity :: "(real \<Rightarrow> real) \<Rightarrow> real \<Rightarrow> real" where
  "obliquity jt ms = obliquity_t (jt ms)"

definition distance :: "(real \<Rightarrow> real) \<Rightarrow> real \<Rightarrow> real" where
  "distance jt ms = distance_t (jt ms)"

definition elevation ::
  "(real \<Rightarrow> real) \<Rightarrow> (real \<Rightarrow> real \<Rightarrow> real) \<Rightarrow> real \<Rightarrow> real \<Rightarrow> real \<Rightarrow> jsnum" where
  "elevation jt sl ms lat lon = elevation_t sl (Fin (jt ms)) (lat * RAD) (lon * RAD)"

definition transit ::
  "(real \<Rightarrow> real) \<Rightarrow> (jsnum \<Rightarrow> jsnum) \<Rightarrow> (real \<Rightarrow> real \<Rightarrow> real) \<Rightarrow> real \<Rightarrow> real \<Rightarrow> real \<Rightarrow> jsnum" where
  "transit jt jf sl ms lat lon = jf (transit_t sl (jt ms) (lat * RAD) (lon * RAD))"

definition rise ::
  "(real \<Rightarrow> real) \<Rightarrow> (jsnum \<Rightarrow> jsnum) \<Rightarrow> (real \<Rightarrow> real \<Rightarrow> real) \<Rightarrow> real \<Rightarrow> real \<Rightarrow> real \<Rightarrow> jsnum" where
  "rise jt jf sl ms lat lon = jf (moonrise (rise_and_set_t sl (jt ms) (lat * RAD) (lon * RAD)))"

definition set_js ::
  "(real \<Rightarrow> real) \<Rightarrow> (jsnum \<Rightarrow> jsnum) \<Rightarrow> (real \<Rightarrow> real \<Rightarrow> real) \<Rightarrow> real \<Rightarrow> real \<Rightarrow> real \<Rightarrow> jsnum" where
  "set_js jt jf sl ms lat lon = jf (moonset (rise_and_set_t sl (jt ms) (lat * RAD) (lon * RAD)))"

definition rise_and_set ::
  "(real \<Rightarrow> real) \<Rightarrow> (jsnum \<Rightarrow> jsnum) \<Rightarrow> (real \<Rightarrow> real \<Rightarrow> real) \<Rightarrow> real \<Rightarrow> real \<Rightarrow> real
     \<Rightarrow> moon_events" where
  "rise_and_set jt jf sl ms lat lon =
     (let x = rise_and_set_t sl (jt ms) (lat * RAD) (lon * RAD);
          x = x\<lparr>moonrise := jf (moonrise x)\<rparr>;
          x = x\<lparr>moonset := jf (moonset x)\<rparr>
      in x)"

text \<open>
  Modelled from the spec: \<open>julian.to\<close>, which is missing from the sources. The
  specification gives \<open>t = (julian_date(instant) - J2000) / 36525\<close> with
  \<open>julian_date(ms) = ms / 86400000 + 2440587.5\<close>; J2000 is the Julian date 2451545.
\<close>

definition julian_date :: "real \<Rightarrow> real" where
  "julian_date ms = ms / 86400000 + 24405875 / 10"

definition julian_to :: "real \<Rightarrow> real" where
  "julian_to ms = (julian_date ms - 2451545) / 36525"

section \<open>Moon phase (lib/lunar.js)\<close>

text \<open>
  The calendar fields that the built-in \<open>Date\<close> object reports for a timestamp:
  \<open>getFullYear\<close>, \<open>getMonth\<close> (January is 0) and \<open>getDate\<close>. The decomposition of a
  valid time value into local calendar fields belongs to the JavaScript runtime and
  is the parameter \<open>cal\<close> below.
\<close>

record js_date =
  getFullYear :: int
  getMonth :: int
  getDate :: int

text \<open>
  \<open>new Date(ts)\<close> on a number: the runtime clips the time value, so a timestamp of
  magnitude above \<open>8.64e15\<close> milliseconds gives an Invalid Date, whose fields are all
  NaN. \<open>None\<close> stands for the Invalid Date. (The branch for a string argument is not
  modelled: timestamps are numbers.)
\<close>

definition dateFromTimestamp :: "(real \<Rightarrow> js_date) \<Rightarrow> real \<Rightarrow> js_date option" where
  "dateFromTimestamp cal ts =
     (if \<bar>ts\<bar> \<le> 8640000000000000 then Some (cal ts) else None)"

text \<open>The remainder operator \<open>%\<close> on integers: the result takes the sign of the dividend.\<close>

definition js_rem :: "int \<Rightarrow> int \<Rightarrow> int" where
  "js_rem a b = sgn a * (\<bar>a\<bar> mod \<bar>b\<bar>)"

text \<open>
  On an Invalid Date \<open>year\<close>, \<open>month\<close> and \<open>day\<close> are NaN; every remainder, sum and
  \<open>Math.floor\<close> of the body is then NaN, the comparisons \<open>r > 9\<close>, \<open>month < 3\<close> and
  \<open>r < 0\<close> are false, and the function returns NaN.
\<close>

definition phaseNumber :: "(real \<Rightarrow> js_date) \<Rightarrow> real \<Rightarrow> jsnum" where
  "phaseNumber cal ts =
     (case dateFromTimestamp cal ts of
        None \<Rightarrow> NaN
      | Some date \<Rightarrow>
          (let year = getFullYear date;
               month = getMonth date + 1;
               day = getDate date;
               r = js_rem year 100;
               r = js_rem r 19;
               r = (if r > 9 then r - 19 else r);
               r = js_rem (r * 11) 30 + month + day;
               r = (if month < 3 then r + 2 else r);
               r' = of_int r - (if year < 2000 then 4 else 83 / 10 :: real);
               r = js_rem \<lfloor>r' + 1 / 2\<rfloor> 30
           in Fin (of_int (if r < 0 then r + 30 else r))))"

definition Math_round :: "real \<Rightarrow> int" where
  "Math_round x = \<lfloor>x + 1 / 2\<rfloor>"

text \<open>The label, \<open>None\<close> standing for the \<open>null\<close> that is returned when no case matches.\<close>

definition phaseString :: "real \<Rightarrow> string option" where
  "phaseString phaseNumber0 =
     (let phaseNumber = Math_round phaseNumber0
      in if phaseNumber = 0 then Some ''new-moon''
         else if 0 < phaseNumber \<and> phaseNumber < 8 then Some ''Waxing-crescent''
         else if phaseNumber = 8 then Some ''first-quarter''
         else if 8 < phaseNumber \<and> phaseNumber < 15 then Some ''waxing-gibbous''
         else if phaseNumber = 15 then Some ''full-moon''
         else if 15 < phaseNumber \<and> phaseNumber < 22 then Some ''waning-gibbous''
         else if phaseNumber = 22 then Some ''last-quarter''
         else if 22 < phaseNumber \<and> phaseNumber < 31 then Some ''waning-crescent''
         else None)"

text \<open>A phase number that is NaN rounds to NaN, which no case of the mapping matches.\<close>

record moon_phase =
  number :: jsnum
  string :: "string option"

definition phase :: "(real \<Rightarrow> js_date) \<Rightarrow> real \<Rightarrow> moon_phase" where
  "phase cal ms =
     (let phaseNumber = phaseNumber cal ms
      in \<lparr>number = phaseNumber,
          string = (case phaseNumber of Fin x \<Rightarrow> phaseString x | _ \<Rightarrow> None)\<rparr>)"

text \<open>The calendar fields of 1 January 1970, for concrete runs of the phase query.\<close>

definition epoch_cal :: "real \<Rightarrow> js_date" where
  "epoch_cal ts = \<lparr>getFullYear = 1970, getMonth = 0, getDate = 1\<rparr>"

section \<open>Vocabulary of the properties\<close>

text \<open>
  Modelled from the spec: \<open>sidereal.local\<close>, which is missing from the sources. The
  specification gives \<open>local_sidereal(t, longitude) = greenwich_sidereal(t) +
  longitude\<close>, normalized to \<open>[0, 2\<pi>)\<close>; the Greenwich series, for which it gives no
  coefficients, is the parameter \<open>greenwich\<close>.
\<close>

definition sidereal_local :: "(real \<Rightarrow> real) \<Rightarrow> real \<Rightarrow> real \<Rightarrow> real" where
  "sidereal_local greenwich t lon = limit_angle (greenwich t + lon)"

text \<open>A Greenwich sidereal time that stands still, for concrete runs of the search.\<close>

definition still_greenwich :: "real \<Rightarrow> real" where
  "still_greenwich t = 0"

text \<open>The two candidate instants of the transit search: from \<open>t + 24h\<close> and from \<open>t\<close>.\<close>

definition backward_search :: "(real \<Rightarrow> real \<Rightarrow> real) \<Rightarrow> real \<Rightarrow> real \<Rightarrow> real" where
  "backward_search sl t lon = transit_direct (t + 1) (hour_angle_refined sl (t + 1) lon)"

definition forward_search :: "(real \<Rightarrow> real \<Rightarrow> real) \<Rightarrow> real \<Rightarrow> real \<Rightarrow> real" where
  "forward_search sl t lon = transit_direct t (hour_angle_refined sl t lon)"

text \<open>A root inside the normalized segment domain \<open>[-1, 1]\<close>.\<close>

fun in_segment :: "jsnum \<Rightarrow> bool" where
  "in_segment (Fin x) = (\<bar>x\<bar> \<le> 1)"
| "in_segment _ = False"

definition count_roots :: "jsnum \<Rightarrow> jsnum \<Rightarrow> nat" where
  "count_roots xe dx = (if js_le (js_abs (js_sub xe dx)) (Fin 1) then 1 else 0)
            + (if js_le (js_abs (js_add xe dx)) (Fin 1) then 1 else 0)"

text \<open>
  The segment that the loop handles at hour \<open>i\<close>: its first sample is the sample one
  hour earlier (at \<open>i = 0\<close> the sample at \<open>t\<close> itself, which the loop uses twice), its
  parabola is fitted to the samples at \<open>i - 1\<close>, \<open>i\<close>, \<open>i + 1\<close>.
\<close>

definition seg_h0 :: "(jsnum \<Rightarrow> jsnum) \<Rightarrow> real \<Rightarrow> nat \<Rightarrow> jsnum" where
  "seg_h0 el t i = (if i = 0 then sample el t 0 else sample el t (i - 1))"

definition seg_fit :: "(jsnum \<Rightarrow> jsnum) \<Rightarrow> real \<Rightarrow> nat \<Rightarrow> parabola" where
  "seg_fit el t i = fit_parabola (seg_h0 el t i) (sample el t i) (sample el t (i + 1))"

text \<open>
  The classification of the crossings of a segment by the sign of its first sample:
  the segment at hour \<open>i\<close> holds a rise when it has two roots, or one root and a
  negative first sample; it holds a set when it has two roots, or one root and a
  first sample that is not negative.
\<close>

definition rise_crossing :: "(jsnum \<Rightarrow> jsnum) \<Rightarrow> real \<Rightarrow> nat \<Rightarrow> bool" where
  "rise_crossing el t i =
     (roots (seg_fit el t i) = 2
      \<or> (roots (seg_fit el t i) = 1 \<and> js_lt (seg_h0 el t i) (Fin 0)))"

definition set_crossing :: "(jsnum \<Rightarrow> jsnum) \<Rightarrow> real \<Rightarrow> nat \<Rightarrow> bool" where
  "set_crossing el t i =
     (roots (seg_fit el t i) = 2
      \<or> (roots (seg_fit el t i) = 1 \<and> \<not> js_lt (seg_h0 el t i) (Fin 0)))"

text \<open>The hours at which the loop handles a segment, and a sweep that holds no set.\<close>

definition sweep_hours :: "nat list" where
  "sweep_hours = [0, 2, 4, 6, 8, 10, 12, 14, 16, 18, 20, 22, 24]"

definition finds_no_set :: "(jsnum \<Rightarrow> jsnum) \<Rightarrow> real \<Rightarrow> bool" where
  "finds_no_set el t = list_all (\<lambda>i. \<not> set_crossing el t i) sweep_hours"

text \<open>An event offset in hours: unresolved, or between \<open>-1\<close> and \<open>25\<close>.\<close>

fun ev_ok :: "jsnum \<Rightarrow> bool" where
  "ev_ok NaN = True"
| "ev_ok (Fin x) = (- 1 \<le> x \<and> x \<le> 25)"
| "ev_ok _ = False"

text \<open>
  Elevation profiles for concrete runs of the sweep; only the values at whole hours
  after \<open>t = 0\<close> are read.
  \<open>late_rise_el\<close>: below the threshold until hour 24, above at hour 25.
  \<open>just_risen_el\<close>: slightly above the threshold at the query instant and climbing.
  \<open>up_down_up_el\<close>: below at the query instant, above from hour 1 to hour 11, falling
  in a straight line through hours 11, 12, 13, below until hour 24, above at hour 25.
  Its samples \<open>-3/64\<close>, \<open>5/64\<close>, \<open>1/64\<close> are binary fractions, so that every step of the
  sweep on them is exact in double precision as well and the run below is the run
  of the program.
\<close>

definition late_rise_el :: "jsnum \<Rightarrow> jsnum" where
  "late_rise_el T =
     (case T of
        Fin x \<Rightarrow> Fin ((if x * 24 \<le> 24 then - (3 / 100) else 5 / 100) - PARALLAX)
      | _ \<Rightarrow> NaN)"

definition just_risen_el :: "jsnum \<Rightarrow> jsnum" where
  "just_risen_el T =
     (case T of
        Fin x \<Rightarrow> Fin ((if x * 24 \<le> 0 then 24 / 1000 else 224 / 1000) - PARALLAX)
      | _ \<Rightarrow> NaN)"

definition up_down_up_el :: "jsnum \<Rightarrow> jsnum" where
  "up_down_up_el T =
     (case T of
        Fin x \<Rightarrow>
          Fin ((if x * 24 \<le> 0 then - (3 / 64)
                else if x * 24 \<le> 11 then 5 / 64
                else if x * 24 \<le> 12 then 1 / 64
                else if x * 24 \<le> 24 then - (3 / 64)
                else 5 / 64) - PARALLAX)
      | _ \<Rightarrow> NaN)"

section \<open>Hour angle\<close>

lemma limit_angle_shift: "limit_angle (x + 2 * pi * of_int j) = limit_angle x"
proof -
  have "(x + 2 * pi * of_int j) / (2 * pi) = x / (2 * pi) + of_int j"
    by (simp add: field_simps)
  then have "\<lfloor>(x + 2 * pi * of_int j) / (2 * pi)\<rfloor> = \<lfloor>x / (2 * pi)\<rfloor> + j"
    by simp
  then show ?thesis
    by (simp add: limit_angle_def algebra_simps)
qed

lemma limit_angle_range: "0 \<le> limit_angle x \<and> limit_angle x < 2 * pi"
proof -
  let ?q = "x / (2 * pi)"
  have p: "0 < 2 * pi" by simp
  have lo: "of_int \<lfloor>?q\<rfloor> \<le> ?q" and hi: "?q < of_int \<lfloor>?q\<rfloor> + 1"
    by linarith+
  have "of_int \<lfloor>?q\<rfloor> * (2 * pi) \<le> x"
    using lo p by (simp only: pos_le_divide_eq)
  moreover have "x < (of_int \<lfloor>?q\<rfloor> + 1) * (2 * pi)"
    using hi p by (simp only: pos_divide_less_eq)
  ultimately show ?thesis
    unfolding limit_angle_def by (simp add: algebra_simps)
qed

lemma limit_angle_whole_turns: "limit_angle x = x - 2 * pi * of_int \<lfloor>x / (2 * pi)\<rfloor>"
  by (simp add: limit_angle_def algebra_simps)

lemma limit_angle_unique:
  assumes "0 \<le> y" and "y < 2 * pi" and "y = x - 2 * pi * of_int n"
  shows "y = limit_angle x"
proof -
  have p: "0 < 2 * pi" by simp
  have "x / (2 * pi) = y / (2 * pi) + of_int n"
    using assms(3) by (simp add: field_simps)
  moreover have "0 \<le> y / (2 * pi)" "y / (2 * pi) < 1"
    using assms(1,2) p by simp_all
  ultimately have "\<lfloor>x / (2 * pi)\<rfloor> = n"
    by (simp add: floor_eq_iff)
  then show ?thesis
    using assms(3) by (simp add: limit_angle_whole_turns)
qed

text \<open>
  C8. The hour angle is the difference of the two operands, each reduced modulo a
  full turn first: the reduced operand differs from the operand by a whole number of
  turns, \<open>\<lfloor>x / 2\<pi>\<rfloor>\<close> of them, and lies in \<open>[0, 2\<pi>)\<close>. Adding whole turns to either
  operand leaves the hour angle unchanged.
\<close>

theorem hour_angle_direct_wrap:
  "hour_angle_direct lst ra = limit_angle lst - limit_angle ra
   \<and> limit_angle lst = lst - 2 * pi * of_int \<lfloor>lst / (2 * pi)\<rfloor>
   \<and> limit_angle ra = ra - 2 * pi * of_int \<lfloor>ra / (2 * pi)\<rfloor>
   \<and> 0 \<le> limit_angle lst \<and> limit_angle lst < 2 * pi
   \<and> 0 \<le> limit_angle ra \<and> limit_angle ra < 2 * pi
   \<and> hour_angle_direct (lst + 2 * pi * of_int j) (ra + 2 * pi * of_int k)
       = hour_angle_direct lst ra"
proof -
  have "hour_angle_direct (lst + 2 * pi * of_int j) (ra + 2 * pi * of_int k)
      = hour_angle_direct lst ra"
    by (simp add: hour_angle_direct_def limit_angle_shift)
  then show ?thesis
    using limit_angle_range [of lst] limit_angle_range [of ra]
      limit_angle_whole_turns [of lst] limit_angle_whole_turns [of ra]
    by (simp only: hour_angle_direct_def simp_thms)
qed

section \<open>Transit refinement\<close>

lemma hour_angle_iterative_round:
  "hour_angle_iterative sl t lon ha = refine_round sl t lon ha"
  by (simp add: hour_angle_iterative_def refine_round_def transit_direct_def field_simps)

text \<open>
  C4. The refined hour angle is the initial hour angle at \<open>t\<close> followed by exactly four
  rounds; each round evaluates the hour angle at \<open>t - ha * (12 / \<pi> / 24)\<close>, which is
  \<open>t\<close> moved back by \<open>ha / (2\<pi>)\<close> days, and adds it to the estimate. No tolerance is
  consulted.
\<close>

theorem hour_angle_refined_four_rounds:
  "hour_angle_refined sl t lon = refined_spec 4 sl t lon
   \<and> hour_angle_iterative sl t lon ha = ha + hour_angle sl (transit_direct t ha) lon
   \<and> transit_direct t ha = t - ha / (2 * pi)"
  by (simp add: hour_angle_refined_def refined_spec_def hour_angle_iterative_round
      numeral_eq_Suc Let_def refine_round_def transit_direct_def field_simps)

section \<open>Ecliptic position\<close>

lemma sin_times_bound: "0 \<le> (c::real) \<Longrightarrow> \<bar>c * sin (x::real)\<bar> \<le> c"
proof -
  assume c: "0 \<le> c"
  have "\<bar>c * sin x\<bar> = c * \<bar>sin x\<bar>"
    using c by (simp only: abs_mult abs_of_nonneg)
  also have "\<dots> \<le> c * 1"
    using c by (intro mult_left_mono) simp_all
  finally show ?thesis by simp
qed

lemma L0_nonneg: "0 \<le> L0"
  by (simp add: L0_def RAD_def)

lemma longitude_t_near_mean: "\<bar>longitude_t t - (Q0 + Q1 * t)\<bar> \<le> L0"
  using sin_times_bound [OF L0_nonneg, of "mean_anomaly t"]
  by (simp add: longitude_t_def ecliptic_equinox_longitude_def)

lemma distance_t_bounds:
  "(385001 - 20905) * AU \<le> distance_t t \<and> distance_t t \<le> (385001 + 20905) * AU"
proof -
  have au: "0 < AU" by (simp add: AU_def)
  have c: "- 1 \<le> cos (mean_anomaly t)" "cos (mean_anomaly t) \<le> 1" by simp_all
  have "distance_t t = (385001 - 20905 * cos (mean_anomaly t)) * AU"
    by (simp add: distance_t_def D0_def D1_def algebra_simps)
  moreover have "385001 - 20905 \<le> 385001 - 20905 * cos (mean_anomaly t)"
    using c by linarith
  moreover have "385001 - 20905 * cos (mean_anomaly t) \<le> 385001 + 20905"
    using c by linarith
  ultimately show ?thesis
    using au by (simp only: mult_le_cancel_right_pos)
qed

text \<open>
  C1, as the code has it. The exported longitude is the raw series value in radians,
  \<open>Q0 + Q1 t + L0 sin (M0 + M1 t)\<close>, which stays within \<open>L0\<close> of the linear mean
  longitude and is not reduced modulo a full turn; the exported distance is strictly
  positive.
\<close>

theorem longitude_unreduced_distance_positive:
  "longitude jt ms = Q0 + Q1 * jt ms + L0 * sin (M0 + M1 * jt ms)
   \<and> \<bar>longitude jt ms - (Q0 + Q1 * jt ms)\<bar> \<le> L0
   \<and> 0 < distance jt ms"
proof -
  have "0 < (385001 - 20905) * AU" by (simp add: AU_def)
  then have "0 < distance_t (jt ms)"
    using distance_t_bounds [of "jt ms"] by linarith
  then show ?thesis
    using longitude_t_near_mean [of "jt ms"]
    by (simp add: longitude_def distance_def longitude_t_def
        ecliptic_equinox_longitude_def mean_anomaly_def)
qed

text \<open>
  C1 as stated fails: at the timestamp \<open>-62168472000000\<close> (twenty Julian centuries
  before J2000) the returned longitude is negative, so it is not in \<open>[0, 360)\<close>.
\<close>

theorem longitude_not_normalized_counterexample:
  "longitude julian_to (- 62168472000000) < 0"
proof -
  have t: "julian_to (- 62168472000000) = - 20"
    by (simp add: julian_to_def julian_date_def)
  have "longitude_t (- 20) \<le> Q0 + Q1 * (- 20) + L0"
    using longitude_t_near_mean [of "- 20"] by linarith
  also have "\<dots> = (218316 / 1000 - 20 * (13176396 / 1000000) + 6289 / 1000) * RAD"
    by (simp add: Q0_def Q1_def L0_def algebra_simps)
  also have "\<dots> < 0"
    by (simp add: RAD_def)
  finally show ?thesis
    by (simp add: longitude_def t)
qed

section \<open>Phase number and label\<close>

lemma js_rem_30_range: "- 30 < js_rem a 30 \<and> js_rem a 30 < 30"
proof -
  have m: "0 \<le> \<bar>a\<bar> mod 30" "\<bar>a\<bar> mod 30 < 30" by simp_all
  show ?thesis
  proof (cases "a < 0")
    case True
    then have "js_rem a 30 = - (\<bar>a\<bar> mod 30)" by (simp add: js_rem_def)
    then show ?thesis using m by linarith
  next
    case False
    then have "js_rem a 30 = 0 \<or> js_rem a 30 = \<bar>a\<bar> mod 30"
      by (cases "a = 0") (simp_all add: js_rem_def)
    then show ?thesis using m by auto
  qed
qed

lemma wrap_30_range:
  "0 \<le> (if js_rem a 30 < 0 then js_rem a 30 + 30 else js_rem a 30)
   \<and> (if js_rem a 30 < 0 then js_rem a 30 + 30 else js_rem a 30) < 30"
  using js_rem_30_range [of a] by simp

lemma wrap_30_Fin:
  "\<exists>n. Fin (of_int (if js_rem a 30 < 0 then js_rem a 30 + 30 else js_rem a 30)) = Fin (of_int n)
       \<and> 0 \<le> n \<and> n < 30"
  using wrap_30_range [of a] by blast

lemma phaseNumber_valid:
  assumes "\<bar>ts\<bar> \<le> 8640000000000000"
  shows "\<exists>n. phaseNumber cal ts = Fin (of_int n) \<and> 0 \<le> n \<and> n < 30"
proof -
  have d: "dateFromTimestamp cal ts = Some (cal ts)"
    using assms by (simp add: dateFromTimestamp_def)
  show ?thesis
    by (simp only: phaseNumber_def d option.case Let_def wrap_30_Fin)
qed

lemma phaseNumber_invalid: "8640000000000000 < \<bar>ts\<bar> \<Longrightarrow> phaseNumber cal ts = NaN"
  by (simp add: phaseNumber_def dateFromTimestamp_def)

text \<open>
  C7, as the code has it. For a timestamp that the \<open>Date\<close> object can hold, of
  magnitude at most \<open>8.64e15\<close> milliseconds, the phase number is an integer from 0 to
  29 whatever calendar fields the timestamp decomposes into; for a timestamp beyond
  that range it is NaN.
\<close>

theorem phaseNumber_range:
  "(\<bar>ts\<bar> \<le> 8640000000000000
      \<longrightarrow> (\<exists>n. phaseNumber cal ts = Fin (of_int n) \<and> 0 \<le> n \<and> n < 30))
   \<and> (8640000000000000 < \<bar>ts\<bar> \<longrightarrow> phaseNumber cal ts = NaN)"
  using phaseNumber_valid [of ts cal] phaseNumber_invalid [of ts cal] by blast

theorem phaseNumber_range_witness:
  "(\<exists>n. phaseNumber epoch_cal 0 = Fin (of_int n) \<and> 0 \<le> n \<and> n < 30)
   \<and> phaseNumber epoch_cal 8640000000000001 = NaN"
  using phaseNumber_range [of 0 epoch_cal] phaseNumber_range [of 8640000000000001 epoch_cal]
  by simp

text \<open>
  C7 as stated fails: the timestamp \<open>10000000000000000\<close> is beyond the range of the
  \<open>Date\<close> object, and the phase number returned for it is NaN, not an integer from 0
  to 29.
\<close>

theorem phaseNumber_counterexample: "phaseNumber epoch_cal 10000000000000000 = NaN"
  by (simp add: phaseNumber_def dateFromTimestamp_def)

text \<open>
  C6 as stated fails: the last case of the mapping, \<open>22 < n < 31\<close>, matches 30.
\<close>

theorem phaseString_30_counterexample: "phaseString 30 = Some ''waning-crescent''"
  by (simp add: phaseString_def Math_round_def)

text \<open>
  C6, as the code has it. The label is missing exactly for the values that round
  below 0 or to 31 and above; 30 is labelled as a waning crescent.
\<close>

theorem phaseString_missing_iff:
  "(phaseString x = None) = (Math_round x < 0 \<or> 31 \<le> Math_round x)"
  by (simp add: phaseString_def Let_def) linarith

section \<open>Transit search\<close>

lemma hour_angle_abs: "\<bar>hour_angle sl t lon\<bar> < 2 * pi"
  using limit_angle_range [of "sl t lon"] limit_angle_range [of "right_ascension_t t"]
  by (simp add: hour_angle_def hour_angle_direct_def abs_less_iff)

lemma hour_angle_iterative_abs:
  "\<bar>ha\<bar> < c \<Longrightarrow> \<bar>hour_angle_iterative sl t lon ha\<bar> < c + 2 * pi"
  using hour_angle_abs [of sl "transit_direct t ha" lon]
  by (simp add: hour_angle_iterative_def)

lemma hour_angle_refined_abs: "\<bar>hour_angle_refined sl t lon\<bar> < 10 * pi"
proof -
  let ?f = "hour_angle_iterative sl t lon"
  have "\<bar>hour_angle sl t lon\<bar> < 2 * pi" by (rule hour_angle_abs)
  then have "\<bar>?f (hour_angle sl t lon)\<bar> < 2 * pi + 2 * pi" by (rule hour_angle_iterative_abs)
  then have "\<bar>?f (?f (hour_angle sl t lon))\<bar> < 2 * pi + 2 * pi + 2 * pi"
    by (rule hour_angle_iterative_abs)
  then have "\<bar>?f (?f (?f (hour_angle sl t lon)))\<bar> < 2 * pi + 2 * pi + 2 * pi + 2 * pi"
    by (rule hour_angle_iterative_abs)
  then have "\<bar>?f (?f (?f (?f (hour_angle sl t lon))))\<bar> < 2 * pi + 2 * pi + 2 * pi + 2 * pi + 2 * pi"
    by (rule hour_angle_iterative_abs)
  then show ?thesis by (simp add: hour_angle_refined_def Let_def)
qed

lemma transit_direct_near: "\<bar>ha\<bar> < 10 * pi \<Longrightarrow> \<bar>transit_direct t ha - t\<bar> < 5"
proof -
  assume a: "\<bar>ha\<bar> < 10 * pi"
  have "transit_direct t ha - t = - (ha / (2 * pi))"
    by (simp add: transit_direct_def field_simps)
  moreover have "\<bar>ha / (2 * pi)\<bar> < 5"
    using a by (simp add: field_simps abs_less_iff)
  ultimately show ?thesis by simp
qed

lemma search_near:
  "\<bar>backward_search sl t lon - (t + 1)\<bar> < 5" "\<bar>forward_search sl t lon - t\<bar> < 5"
  unfolding backward_search_def forward_search_def
  by (rule transit_direct_near, rule hour_angle_refined_abs)+

lemma transit_t_cases:
  "transit_t sl t lat lon =
     (if backward_search sl t lon \<le> t + 1 then Fin (backward_search sl t lon)
      else if t \<le> forward_search sl t lon then Fin (forward_search sl t lon)
      else NaN)"
  by (simp add: transit_t_def hours_later_def Let_def backward_search_def forward_search_def)

text \<open>
  C2, as the code has it. The instant found from \<open>t + 24h\<close> is returned whenever it is
  not later than \<open>t + 24h\<close>, with no test against \<open>t\<close>; otherwise the instant found from
  \<open>t\<close> is returned whenever it is not earlier than \<open>t\<close>, with no test against
  \<open>t + 24h\<close>; NaN is returned exactly when the first lies after \<open>t + 24h\<close> and the
  second before \<open>t\<close>. A finite result lies less than four days before and less than
  five days after \<open>t\<close>.
\<close>

theorem transit_one_sided:
  "transit_t sl t lat lon =
     (if backward_search sl t lon \<le> t + 24 / 24 then Fin (backward_search sl t lon)
      else if t \<le> forward_search sl t lon then Fin (forward_search sl t lon)
      else NaN)
   \<and> (transit_t sl t lat lon = NaN)
       = (t + 24 / 24 < backward_search sl t lon \<and> forward_search sl t lon < t)
   \<and> (transit_t sl t lat lon = Fin x \<longrightarrow> t - 4 < x \<and> x < t + 5)"
  using search_near [of sl t lon]
  by (auto simp: transit_t_cases abs_less_iff)

lemma limit_angle_idem: "limit_angle (limit_angle x) = limit_angle x"
proof -
  have "\<lfloor>limit_angle x / (2 * pi)\<rfloor> = 0"
    using limit_angle_range [of x] by (simp add: floor_eq_iff)
  then show ?thesis by (simp add: limit_angle_def [of "limit_angle x"])
qed

lemma on_meridian: "hour_angle (sidereal_local still_greenwich) t (right_ascension_t t) = 0"
  by (simp add: hour_angle_def hour_angle_direct_def sidereal_local_def still_greenwich_def
      limit_angle_idem)

lemma transit_on_meridian:
  "transit_t (sidereal_local still_greenwich) 0 0 (right_ascension_t 1) = Fin 1"
proof -
  have "hour_angle_refined (sidereal_local still_greenwich) 1 (right_ascension_t 1) = 0"
    by (simp add: hour_angle_refined_def hour_angle_iterative_def transit_direct_def on_meridian)
  then show ?thesis
    by (simp add: transit_t_cases backward_search_def transit_direct_def)
qed

theorem transit_one_sided_witness:
  "transit_t (sidereal_local still_greenwich) 0 0 (right_ascension_t 1) = Fin 1
   \<and> (0::real) - 4 < 1 \<and> (1::real) < 0 + 5"
  using transit_one_sided [of "sidereal_local still_greenwich" 0 0 "right_ascension_t 1" 1]
    transit_on_meridian
  by simp

subsection \<open>Right ascension over two stretches of days\<close>

text \<open>
  From day 0 to day 5 after J2000 the right ascension, reduced to \<open>[0, 2\<pi>)\<close>, lies in
  the lower half turn \<open>(\<pi>, 2\<pi>)\<close>; from day 12 to day 20 it lies in \<open>(0, \<pi>)\<close>. With a
  local sidereal time that stands still this fixes the sign of every hour angle that
  the refinement reads, and so the side on which the search ends.
\<close>

lemma RAD_pos: "0 < RAD" by (simp add: RAD_def)

lemma deg_less: "a < d \<Longrightarrow> a * RAD < d * RAD"
  using RAD_pos by simp

lemma RAD_180: "180 * RAD = pi" "360 * RAD = 2 * pi" "90 * RAD = pi / 2" "540 * RAD = 3 * pi"
  by (simp_all add: RAD_def)

lemma longitude_t_deg:
  "longitude_t t = (218316 / 1000 + (13176396 / 1000000) * t + (6289 / 1000) * sin (mean_anomaly t)) * RAD"
  by (simp add: longitude_t_def ecliptic_equinox_longitude_def Q0_def Q1_def L0_def algebra_simps)

lemma latitude_t_deg: "latitude_t t = ((5128 / 1000) * sin (mean_distance t)) * RAD"
  by (simp add: latitude_t_def L1_def algebra_simps)

lemma mean_distance_deg: "mean_distance t = (93272 / 1000 + (1322935 / 100000) * t) * RAD"
  by (simp add: mean_distance_def F0_def F1_def algebra_simps)

lemma obliquity_t_deg: "obliquity_t t = (23439 / 1000 - (36 / 100000000) * t) * RAD"
  by (simp add: obliquity_t_def E0_def E1_def algebra_simps)

lemma obliquity_quadrant:
  assumes "0 \<le> t" "t \<le> 20"
  shows "0 < sin (obliquity_t t) \<and> 0 < cos (obliquity_t t)"
proof -
  have "0 * RAD < obliquity_t t" "obliquity_t t < 90 * RAD"
    unfolding obliquity_t_deg using assms by (intro deg_less; simp)+
  then have "0 < obliquity_t t" "obliquity_t t < pi / 2" by (simp_all add: RAD_180)
  then show ?thesis by (simp add: sin_gt_zero2 cos_gt_zero)
qed

lemma y_negative_early:
  assumes "0 \<le> t" "t \<le> 5"
  shows "sin (longitude_t t) * cos (obliquity_t t) - tan (latitude_t t) * sin (obliquity_t t) < 0"
proof -
  have s: "- 1 \<le> sin (mean_anomaly t)" "sin (mean_anomaly t) \<le> 1" by simp_all
  have "180 * RAD < longitude_t t" "longitude_t t < 360 * RAD"
    unfolding longitude_t_deg using assms s by (intro deg_less; linarith)+
  then have "pi < longitude_t t" "longitude_t t < 2 * pi" by (simp_all add: RAD_180)
  then have sl: "sin (longitude_t t) < 0" by (rule sin_lt_zero)
  have "0 * RAD < mean_distance t" "mean_distance t < 180 * RAD"
    unfolding mean_distance_deg using assms by (intro deg_less; linarith)+
  then have "0 < mean_distance t" "mean_distance t < pi" by (simp_all add: RAD_180)
  then have sf: "0 < sin (mean_distance t)" by (rule sin_gt_zero)
  have sf1: "sin (mean_distance t) \<le> 1" by simp
  have "0 * RAD < latitude_t t" "latitude_t t < 90 * RAD"
    unfolding latitude_t_deg using sf sf1 by (intro deg_less; linarith)+
  then have "0 < latitude_t t" "latitude_t t < pi / 2" by (simp_all add: RAD_180)
  then have tl: "0 < tan (latitude_t t)" by (rule tan_gt_zero)
  have ob: "0 < sin (obliquity_t t)" "0 < cos (obliquity_t t)"
    using obliquity_quadrant [of t] assms by simp_all
  have "sin (longitude_t t) * cos (obliquity_t t) < 0"
    using sl ob by (simp add: mult_neg_pos)
  moreover have "0 < tan (latitude_t t) * sin (obliquity_t t)"
    using tl ob by simp
  ultimately show ?thesis by linarith
qed

lemma atan2_negative: "y < 0 \<Longrightarrow> - pi < Math_atan2 y x \<and> Math_atan2 y x < 0"
proof -
  assume y: "y < 0"
  consider "0 < x" | "x < 0" | "x = 0" by linarith
  then show ?thesis
  proof cases
    case 1
    then have "y / x < 0" using y by (simp add: divide_neg_pos)
    then have "arctan (y / x) < 0" by (simp add: arctan_less_zero_iff)
    moreover have "- (pi / 2) < arctan (y / x)" by (rule arctan_lbound)
    moreover have "- pi < - (pi / 2)" using pi_gt_zero by simp
    ultimately have "- pi < arctan (y / x) \<and> arctan (y / x) < 0" by linarith
    then show ?thesis using 1 by (simp add: Math_atan2_def)
  next
    case 2
    then have "0 < y / x" using y by (simp add: divide_neg_neg)
    then have "0 < arctan (y / x)" by (simp add: zero_less_arctan_iff)
    moreover have "arctan (y / x) < pi / 2" by (rule arctan_ubound)
    moreover have "pi / 2 < pi" using pi_gt_zero by simp
    ultimately have "- pi < arctan (y / x) - pi \<and> arctan (y / x) - pi < 0" by linarith
    then show ?thesis using 2 y by (simp add: Math_atan2_def)
  next
    case 3
    have "- pi < - (pi / 2)" using pi_gt_zero by simp
    then show ?thesis using 3 y by (simp add: Math_atan2_def)
  qed
qed

lemma limit_angle_negative: "- pi < x \<Longrightarrow> x < 0 \<Longrightarrow> limit_angle x = x + 2 * pi"
proof -
  assume a: "- pi < x" "x < 0"
  have "- 1 \<le> x / (2 * pi)" "x / (2 * pi) < 0"
    using a by (simp_all add: field_simps)
  then have "\<lfloor>x / (2 * pi)\<rfloor> = - 1" by (simp add: floor_eq_iff)
  then show ?thesis by (simp add: limit_angle_def)
qed

lemma ra_lower_half:
  assumes "0 \<le> t" "t \<le> 5"
  shows "pi < limit_angle (right_ascension_t t) \<and> limit_angle (right_ascension_t t) < 2 * pi"
proof -
  have "- pi < right_ascension_t t \<and> right_ascension_t t < 0"
    unfolding right_ascension_t_def right_ascension_direct_def
    using assms by (intro atan2_negative y_negative_early)
  then show ?thesis by (simp add: limit_angle_negative)
qed

lemma y_positive_later:
  assumes "12 \<le> t" "t \<le> 20"
  shows "0 < sin (longitude_t t) * cos (obliquity_t t) - tan (latitude_t t) * sin (obliquity_t t)"
proof -
  have s: "- 1 \<le> sin (mean_anomaly t)" "sin (mean_anomaly t) \<le> 1" by simp_all
  have "360 * RAD < longitude_t t" "longitude_t t < 540 * RAD"
    unfolding longitude_t_deg using assms s by (intro deg_less; linarith)+
  then have "0 < longitude_t t - 2 * pi" "longitude_t t - 2 * pi < pi" by (simp_all add: RAD_180)
  then have "0 < sin (longitude_t t - 2 * pi)" by (rule sin_gt_zero)
  then have sl: "0 < sin (longitude_t t)"
    using sin_periodic [of "longitude_t t - 2 * pi"] by simp
  have "180 * RAD < mean_distance t" "mean_distance t < 360 * RAD"
    unfolding mean_distance_deg using assms by (intro deg_less; linarith)+
  then have "pi < mean_distance t" "mean_distance t < 2 * pi" by (simp_all add: RAD_180)
  then have sf: "sin (mean_distance t) < 0" by (rule sin_lt_zero)
  have sf1: "- 1 \<le> sin (mean_distance t)" by simp
  have "0 * RAD < - latitude_t t" "- latitude_t t < 90 * RAD"
    unfolding latitude_t_deg minus_mult_left using sf sf1 by (intro deg_less; linarith)+
  then have "0 < - latitude_t t" "- latitude_t t < pi / 2" by (simp_all add: RAD_180)
  then have "0 < tan (- latitude_t t)" by (rule tan_gt_zero)
  then have tl: "tan (latitude_t t) < 0" by simp
  have ob: "0 < sin (obliquity_t t)" "0 < cos (obliquity_t t)"
    using obliquity_quadrant [of t] assms by simp_all
  have "0 < sin (longitude_t t) * cos (obliquity_t t)"
    using sl ob by simp
  moreover have "tan (latitude_t t) * sin (obliquity_t t) < 0"
    using tl ob by (simp add: mult_neg_pos)
  ultimately show ?thesis by linarith
qed

lemma atan2_positive: "0 < y \<Longrightarrow> 0 < Math_atan2 y x \<and> Math_atan2 y x < pi"
proof -
  assume y: "0 < y"
  consider "0 < x" | "x < 0" | "x = 0" by linarith
  then show ?thesis
  proof cases
    case 1
    then have "0 < y / x" using y by simp
    then have "0 < arctan (y / x)" by (simp add: zero_less_arctan_iff)
    moreover have "arctan (y / x) < pi / 2" by (rule arctan_ubound)
    moreover have "pi / 2 < pi" using pi_gt_zero by simp
    ultimately have "0 < arctan (y / x) \<and> arctan (y / x) < pi" by linarith
    then show ?thesis using 1 by (simp add: Math_atan2_def)
  next
    case 2
    then have "y / x < 0" using y by (simp add: divide_pos_neg)
    then have "arctan (y / x) < 0" by (simp add: arctan_less_zero_iff)
    moreover have "- (pi / 2) < arctan (y / x)" by (rule arctan_lbound)
    moreover have "pi / 2 < pi" using pi_gt_zero by simp
    ultimately have "0 < arctan (y / x) + pi \<and> arctan (y / x) + pi < pi" by linarith
    then show ?thesis using 2 y by (simp add: Math_atan2_def)
  next
    case 3
    have "pi / 2 < pi" using pi_gt_zero by simp
    then show ?thesis using 3 y by (simp add: Math_atan2_def)
  qed
qed

lemma limit_angle_id: "0 \<le> x \<Longrightarrow> x < 2 * pi \<Longrightarrow> limit_angle x = x"
proof -
  assume a: "0 \<le> x" "x < 2 * pi"
  have "0 \<le> x / (2 * pi)" "x / (2 * pi) < 1"
    using a by (simp_all add: field_simps)
  then have "\<lfloor>x / (2 * pi)\<rfloor> = 0" by (simp add: floor_eq_iff)
  then show ?thesis by (simp add: limit_angle_def)
qed

lemma ra_upper_half:
  assumes "12 \<le> t" "t \<le> 20"
  shows "0 < limit_angle (right_ascension_t t) \<and> limit_angle (right_ascension_t t) < pi"
proof -
  have r: "0 < right_ascension_t t \<and> right_ascension_t t < pi"
    unfolding right_ascension_t_def right_ascension_direct_def
    using assms by (intro atan2_positive y_positive_later)
  then have "limit_angle (right_ascension_t t) = right_ascension_t t"
    by (intro limit_angle_id) simp_all
  then show ?thesis using r by simp
qed

lemma turns_early:
  assumes "0 \<le> t" "t \<le> 5"
  shows "- 1 < hour_angle (sidereal_local still_greenwich) t 0 / (2 * pi)
       \<and> hour_angle (sidereal_local still_greenwich) t 0 / (2 * pi) < - (1 / 2)"
proof -
  have "hour_angle (sidereal_local still_greenwich) t 0 = - limit_angle (right_ascension_t t)"
    by (simp add: hour_angle_def hour_angle_direct_def sidereal_local_def still_greenwich_def
        limit_angle_id)
  then show ?thesis
    using ra_lower_half [OF assms] by (simp add: field_simps)
qed

lemma turns_later:
  assumes "12 \<le> t" "t \<le> 20"
  shows "1 / 4 < hour_angle (sidereal_local still_greenwich) t (3 * pi / 2) / (2 * pi)
       \<and> hour_angle (sidereal_local still_greenwich) t (3 * pi / 2) / (2 * pi) < 3 / 4"
proof -
  have l: "limit_angle (3 * pi / 2) = 3 * pi / 2"
    by (rule limit_angle_id) simp_all
  have "hour_angle (sidereal_local still_greenwich) t (3 * pi / 2)
      = limit_angle (3 * pi / 2) - limit_angle (right_ascension_t t)"
    by (simp add: hour_angle_def hour_angle_direct_def sidereal_local_def still_greenwich_def
         limit_angle_idem)
  then have h: "hour_angle (sidereal_local still_greenwich) t (3 * pi / 2)
      = 3 * pi / 2 - limit_angle (right_ascension_t t)"
    by (simp only: l)
  show ?thesis
    unfolding h using ra_upper_half [OF assms] by (simp add: field_simps)
qed

lemma iterative_turns:
  "hour_angle_iterative sl t lon ha / (2 * pi)
     = hour_angle sl (t - ha / (2 * pi)) lon / (2 * pi) + ha / (2 * pi)"
proof -
  have "transit_direct t ha = t - ha / (2 * pi)"
    by (simp add: transit_direct_def)
  then show ?thesis
    by (simp add: hour_angle_iterative_def Let_def add_divide_distrib)
qed

lemma early_step:
  assumes t: "0 \<le> t" "t \<le> 1" and k: "0 \<le> k" "k \<le> 4"
    and u: "- k < ha / (2 * pi)" "ha / (2 * pi) < - (k / 2)"
  shows "- (k + 1) < hour_angle_iterative (sidereal_local still_greenwich) t 0 ha / (2 * pi)
       \<and> hour_angle_iterative (sidereal_local still_greenwich) t 0 ha / (2 * pi) < - (k / 2) - 1 / 2"
proof -
  have a: "0 \<le> t - ha / (2 * pi)" and b: "t - ha / (2 * pi) \<le> 5"
    using t k u by linarith+
  from turns_early [OF a b]
  have p: "- 1 < hour_angle (sidereal_local still_greenwich) (t - ha / (2 * pi)) 0 / (2 * pi)"
    and q: "hour_angle (sidereal_local still_greenwich) (t - ha / (2 * pi)) 0 / (2 * pi) < - (1 / 2)"
    by blast+
  have "- (k + 1) < hour_angle (sidereal_local still_greenwich) (t - ha / (2 * pi)) 0 / (2 * pi)
      + ha / (2 * pi)"
    using p u by linarith
  moreover
  have "hour_angle (sidereal_local still_greenwich) (t - ha / (2 * pi)) 0 / (2 * pi)
      + ha / (2 * pi) < - (k / 2) - 1 / 2"
    using q u by linarith
  ultimately show ?thesis
    unfolding iterative_turns by blast
qed

lemma refined_early:
  assumes t: "0 \<le> t" "t \<le> 1"
  shows "- 5 < hour_angle_refined (sidereal_local still_greenwich) t 0 / (2 * pi)
       \<and> hour_angle_refined (sidereal_local still_greenwich) t 0 / (2 * pi) < - (5 / 2)"
proof -
  let ?f = "hour_angle_iterative (sidereal_local still_greenwich) t 0"
  let ?h = "hour_angle (sidereal_local still_greenwich) t 0"
  have 0: "- 1 < ?h / (2 * pi) \<and> ?h / (2 * pi) < - (1 / 2)"
    using t by (intro turns_early) simp_all
  have 1: "- 2 < ?f ?h / (2 * pi) \<and> ?f ?h / (2 * pi) < - 1"
    using early_step [OF t, of 1 ?h] 0 by simp
  have 2: "- 3 < ?f (?f ?h) / (2 * pi) \<and> ?f (?f ?h) / (2 * pi) < - (3 / 2)"
    using early_step [OF t, of 2 "?f ?h"] 1 by simp
  have 3: "- 4 < ?f (?f (?f ?h)) / (2 * pi) \<and> ?f (?f (?f ?h)) / (2 * pi) < - 2"
    using early_step [OF t, of 3 "?f (?f ?h)"] 2 by simp
  have 4: "- 5 < ?f (?f (?f (?f ?h))) / (2 * pi) \<and> ?f (?f (?f (?f ?h))) / (2 * pi) < - (5 / 2)"
    using early_step [OF t, of 4 "?f (?f (?f ?h))"] 3 by simp
  then show ?thesis by (simp add: hour_angle_refined_def Let_def)
qed

lemma later_step:
  assumes t: "19 \<le> t" "t \<le> 20" and k: "0 \<le> k" "k \<le> 4"
    and u: "k / 4 < ha / (2 * pi)" "ha / (2 * pi) < 3 * k / 4"
  shows "k / 4 + 1 / 4 < hour_angle_iterative (sidereal_local still_greenwich) t (3 * pi / 2) ha / (2 * pi)
       \<and> hour_angle_iterative (sidereal_local still_greenwich) t (3 * pi / 2) ha / (2 * pi)
           < 3 * k / 4 + 3 / 4"
proof -
  have a: "12 \<le> t - ha / (2 * pi)" and b: "t - ha / (2 * pi) \<le> 20"
    using t k u by linarith+
  from turns_later [OF a b]
  have p: "1 / 4
      < hour_angle (sidereal_local still_greenwich) (t - ha / (2 * pi)) (3 * pi / 2) / (2 * pi)"
    and q: "hour_angle (sidereal_local still_greenwich) (t - ha / (2 * pi)) (3 * pi / 2) / (2 * pi)
      < 3 / 4"
    by blast+
  have "k / 4 + 1 / 4
      < hour_angle (sidereal_local still_greenwich) (t - ha / (2 * pi)) (3 * pi / 2) / (2 * pi)
        + ha / (2 * pi)"
    using p u by linarith
  moreover
  have "hour_angle (sidereal_local still_greenwich) (t - ha / (2 * pi)) (3 * pi / 2) / (2 * pi)
        + ha / (2 * pi) < 3 * k / 4 + 3 / 4"
    using q u by linarith
  ultimately show ?thesis
    unfolding iterative_turns by blast
qed

lemma refined_later:
  assumes t: "19 \<le> t" "t \<le> 20"
  shows "5 / 4 < hour_angle_refined (sidereal_local still_greenwich) t (3 * pi / 2) / (2 * pi)
       \<and> hour_angle_refined (sidereal_local still_greenwich) t (3 * pi / 2) / (2 * pi) < 15 / 4"
proof -
  let ?f = "hour_angle_iterative (sidereal_local still_greenwich) t (3 * pi / 2)"
  let ?h = "hour_angle (sidereal_local still_greenwich) t (3 * pi / 2)"
  have 0: "1 / 4 < ?h / (2 * pi) \<and> ?h / (2 * pi) < 3 / 4"
    using t by (intro turns_later) simp_all
  have 1: "2 / 4 < ?f ?h / (2 * pi) \<and> ?f ?h / (2 * pi) < 6 / 4"
    using later_step [OF t, of 1 ?h] 0 by simp
  have 2: "3 / 4 < ?f (?f ?h) / (2 * pi) \<and> ?f (?f ?h) / (2 * pi) < 9 / 4"
    using later_step [OF t, of 2 "?f ?h"] 1 by simp
  have 3: "4 / 4 < ?f (?f (?f ?h)) / (2 * pi) \<and> ?f (?f (?f ?h)) / (2 * pi) < 12 / 4"
    using later_step [OF t, of 3 "?f (?f ?h)"] 2 by simp
  have 4: "5 / 4 < ?f (?f (?f (?f ?h))) / (2 * pi) \<and> ?f (?f (?f (?f ?h))) / (2 * pi) < 15 / 4"
    using later_step [OF t, of 4 "?f (?f (?f ?h))"] 3 by simp
  then show ?thesis by (simp add: hour_angle_refined_def Let_def)
qed

lemma transit_direct_turns: "transit_direct t ha = t - ha / (2 * pi)"
  by (simp add: transit_direct_def)

lemma transit_past_the_day:
  "transit_t (sidereal_local still_greenwich) 0 0 0
     = Fin (forward_search (sidereal_local still_greenwich) 0 0)
   \<and> 0 + 24 / 24 < forward_search (sidereal_local still_greenwich) 0 0"
proof -
  let ?S = "sidereal_local still_greenwich"
  have b: "backward_search ?S 0 0 = 1 - hour_angle_refined ?S 1 0 / (2 * pi)"
    unfolding backward_search_def transit_direct_turns by simp
  have f: "forward_search ?S 0 0 = 0 - hour_angle_refined ?S 0 0 / (2 * pi)"
    unfolding forward_search_def transit_direct_turns by simp
  have r1: "hour_angle_refined ?S 1 0 / (2 * pi) < - (5 / 2)"
    using refined_early [of 1] by simp
  have r0: "hour_angle_refined ?S 0 0 / (2 * pi) < - (5 / 2)"
    using refined_early [of 0] by simp
  have "\<not> backward_search ?S 0 0 \<le> 0 + 1" unfolding b using r1 by linarith
  moreover have far: "0 + 24 / 24 < forward_search ?S 0 0" unfolding f using r0 by linarith
  moreover have "0 \<le> forward_search ?S 0 0" using far by linarith
  ultimately show ?thesis by (simp add: transit_t_cases)
qed

lemma transit_before_the_day:
  "transit_t (sidereal_local still_greenwich) 19 0 (3 * pi / 2)
     = Fin (backward_search (sidereal_local still_greenwich) 19 (3 * pi / 2))
   \<and> backward_search (sidereal_local still_greenwich) 19 (3 * pi / 2) < 19"
proof -
  let ?S = "sidereal_local still_greenwich"
  have b: "backward_search ?S 19 (3 * pi / 2)
      = 20 - hour_angle_refined ?S 20 (3 * pi / 2) / (2 * pi)"
    unfolding backward_search_def transit_direct_turns by simp
  have r: "5 / 4 < hour_angle_refined ?S 20 (3 * pi / 2) / (2 * pi)"
    using refined_later [of 20] by simp
  have early: "backward_search ?S 19 (3 * pi / 2) < 19" unfolding b using r by linarith
  moreover have "backward_search ?S 19 (3 * pi / 2) \<le> 19 + 1" using early by linarith
  ultimately show ?thesis by (simp add: transit_t_cases)
qed

text \<open>
  C2 as stated fails. With the Greenwich sidereal time held at zero: from \<open>t = 19\<close> at
  longitude \<open>3\<pi>/2\<close> the search from \<open>t + 24h\<close> ends before \<open>t\<close> and is returned; from
  \<open>t = 0\<close> at longitude 0 the search from \<open>t + 24h\<close> overshoots, and the search from
  \<open>t\<close> ends after \<open>t + 24h\<close> and is returned; and for the observer whose meridian the
  Moon crosses exactly 24 hours after \<open>t = 0\<close> the instant \<open>t + 24h\<close> itself is
  returned. None of the three lies in \<open>[t, t + 24h)\<close>.
\<close>

theorem transit_window_counterexample:
  "transit_t (sidereal_local still_greenwich) 19 0 (3 * pi / 2)
     = Fin (backward_search (sidereal_local still_greenwich) 19 (3 * pi / 2))
   \<and> backward_search (sidereal_local still_greenwich) 19 (3 * pi / 2) < 19
   \<and> transit_t (sidereal_local still_greenwich) 0 0 0
     = Fin (forward_search (sidereal_local still_greenwich) 0 0)
   \<and> 0 + 24 / 24 < forward_search (sidereal_local still_greenwich) 0 0
   \<and> transit_t (sidereal_local still_greenwich) 0 0 (right_ascension_t 1) = Fin (0 + 24 / 24)"
  using transit_before_the_day transit_past_the_day transit_on_meridian by simp

section \<open>Rise and set sweep\<close>

lemma in_segment_iff: "in_segment v = (\<exists>x. v = Fin x \<and> \<bar>x\<bar> \<le> 1)"
  by (cases v) simp_all

lemma ev_ok_iff: "ev_ok m = (m = NaN \<or> (\<exists>x. m = Fin x \<and> - 1 \<le> x \<and> x \<le> 25))"
  by (cases m) simp_all

lemma js_abs_le_1: "js_le (js_abs v) (Fin 1) = (\<exists>x. v = Fin x \<and> \<bar>x\<bar> \<le> 1)"
  by (cases v) simp_all

lemma js_add_Fin: "js_add a b = Fin z \<Longrightarrow> \<exists>x y. a = Fin x \<and> b = Fin y \<and> z = x + y"
  by (cases a; cases b) simp_all

lemma js_sub_Fin: "js_sub a b = Fin z \<Longrightarrow> \<exists>x y. a = Fin x \<and> b = Fin y \<and> z = x - y"
  by (cases a; cases b) (simp_all add: js_sub_def)

lemma half_width_nonneg:
  "js_div (js_sqrt d) (js_mul (js_abs a) (Fin 2)) = Fin w \<Longrightarrow> 0 \<le> w"
  by (cases d; cases a) (auto simp: js_inf_of_sign_def split: if_splits)

lemma fit_parabola_roots_le: "roots (fit_parabola h0 h1 h2) \<le> 2"
  by (simp add: fit_parabola_def Let_def)

lemma count_one:
  assumes w: "\<And>w. dx = Fin w \<Longrightarrow> 0 \<le> w"
    and one: "(if js_le (js_abs (js_sub xe dx)) (Fin 1) then 1 else 0)
            + (if js_le (js_abs (js_add xe dx)) (Fin 1) then 1 else 0) = (1::nat)"
  shows "in_segment (if js_lt (js_sub xe dx) (Fin (- 1)) then js_add xe dx else js_sub xe dx)"
proof (cases "js_le (js_abs (js_sub xe dx)) (Fin 1)")
  case True
  then obtain x where x: "js_sub xe dx = Fin x" "\<bar>x\<bar> \<le> 1"
    by (auto simp: js_abs_le_1)
  then have "\<not> x < - 1" by linarith
  with x show ?thesis by (simp add: in_segment_iff)
next
  case False
  with one have "js_le (js_abs (js_add xe dx)) (Fin 1)"
    by (simp split: if_splits)
  then obtain y where y: "js_add xe dx = Fin y" "\<bar>y\<bar> \<le> 1"
    by (auto simp: js_abs_le_1)
  then obtain e w where ew: "xe = Fin e" "dx = Fin w" "y = e + w"
    by (auto dest: js_add_Fin)
  have "0 \<le> w" using w ew by simp
  have x: "js_sub xe dx = Fin (e - w)" by (simp add: ew js_sub_def)
  from False have "\<not> \<bar>e - w\<bar> \<le> 1" by (simp add: x)
  with y ew \<open>0 \<le> w\<close> have "e - w < - 1" by linarith
  then show ?thesis using y by (simp add: x in_segment_iff)
qed

lemma fit_parabola_shape:
  "\<exists>xe dx y. (\<forall>w. dx = Fin w \<longrightarrow> 0 \<le> w) \<and>
     (fit_parabola h0 h1 h2 =
        \<lparr>roots = count_roots xe dx,
         x1 = (if js_lt (js_sub xe dx) (Fin (- 1)) then js_add xe dx else js_sub xe dx),
         x2 = js_add xe dx, ye = y\<rparr>
      \<or> fit_parabola h0 h1 h2 = \<lparr>roots = 0, x1 = NaN, x2 = NaN, ye = y\<rparr>)"
proof -
  define a where "a = js_sub (js_div (js_add h2 h0) (Fin 2)) h1"
  define b where "b = js_div (js_sub h2 h0) (Fin 2)"
  define xe where "xe = js_div (js_neg b) (js_mul (Fin 2) a)"
  define d where "d = js_sub (js_mul b b) (js_mul (js_mul (Fin 4) a) h1)"
  define dx where "dx = js_div (js_sqrt d) (js_mul (js_abs a) (Fin 2))"
  define y where "y = js_add (js_mul (js_add (js_mul a xe) b) xe) h1"
  have w: "\<forall>w. dx = Fin w \<longrightarrow> 0 \<le> w"
    unfolding dx_def by (blast intro: half_width_nonneg)
  have "fit_parabola h0 h1 h2 =
      (if js_ge d (Fin 0) then
        \<lparr>roots = count_roots xe dx,
         x1 = (if js_lt (js_sub xe dx) (Fin (- 1)) then js_add xe dx else js_sub xe dx),
         x2 = js_add xe dx, ye = y\<rparr>
       else \<lparr>roots = 0, x1 = NaN, x2 = NaN, ye = y\<rparr>)"
    unfolding fit_parabola_def Let_def count_roots_def a_def b_def xe_def d_def dx_def y_def
    by simp
  with w show ?thesis by (cases "js_ge d (Fin 0)") auto
qed

lemma fit_parabola_one_root:
  assumes "roots (fit_parabola h0 h1 h2) = 1"
  shows "in_segment (x1 (fit_parabola h0 h1 h2))"
proof -
  obtain xe dx y where w: "\<And>w. dx = Fin w \<Longrightarrow> 0 \<le> w"
    and f: "fit_parabola h0 h1 h2 =
        \<lparr>roots = count_roots xe dx,
         x1 = (if js_lt (js_sub xe dx) (Fin (- 1)) then js_add xe dx else js_sub xe dx),
         x2 = js_add xe dx, ye = y\<rparr>
      \<or> fit_parabola h0 h1 h2 = \<lparr>roots = 0, x1 = NaN, x2 = NaN, ye = y\<rparr>"
    using fit_parabola_shape [of h0 h1 h2] by blast
  from f assms have g: "fit_parabola h0 h1 h2 =
        \<lparr>roots = count_roots xe dx,
         x1 = (if js_lt (js_sub xe dx) (Fin (- 1)) then js_add xe dx else js_sub xe dx),
         x2 = js_add xe dx, ye = y\<rparr>" by auto
  with assms have "count_roots xe dx = 1" by simp
  then show ?thesis
    unfolding g count_roots_def using count_one [of dx xe, OF w] by simp
qed

lemma count_two:
  assumes two: "count_roots xe dx = 2"
  shows "in_segment (js_sub xe dx) \<and> in_segment (js_add xe dx) \<and> \<not> js_lt (js_sub xe dx) (Fin (- 1))"
proof -
  from two have a: "js_le (js_abs (js_sub xe dx)) (Fin 1)" and b: "js_le (js_abs (js_add xe dx)) (Fin 1)"
    by (simp_all add: count_roots_def split: if_splits)
  from a obtain x where x: "js_sub xe dx = Fin x" "\<bar>x\<bar> \<le> 1" by (auto simp: js_abs_le_1)
  then have "\<not> x < - 1" by linarith
  with a b x show ?thesis by (simp add: in_segment_iff js_abs_le_1)
qed

lemma fit_parabola_two_roots:
  assumes "roots (fit_parabola h0 h1 h2) = 2"
  shows "in_segment (x1 (fit_parabola h0 h1 h2)) \<and> in_segment (x2 (fit_parabola h0 h1 h2))"
proof -
  obtain xe dx y where 
     f: "fit_parabola h0 h1 h2 =
        \<lparr>roots = count_roots xe dx,
         x1 = (if js_lt (js_sub xe dx) (Fin (- 1)) then js_add xe dx else js_sub xe dx),
         x2 = js_add xe dx, ye = y\<rparr>
      \<or> fit_parabola h0 h1 h2 = \<lparr>roots = 0, x1 = NaN, x2 = NaN, ye = y\<rparr>"
    using fit_parabola_shape [of h0 h1 h2] by blast
  from f assms have g: "fit_parabola h0 h1 h2 =
        \<lparr>roots = count_roots xe dx,
         x1 = (if js_lt (js_sub xe dx) (Fin (- 1)) then js_add xe dx else js_sub xe dx),
         x2 = js_add xe dx, ye = y\<rparr>" by auto
  with assms have "count_roots xe dx = 2" by simp
  then show ?thesis
    unfolding g using count_two [of xe dx] by simp
qed

lemma sweep_step:
  assumes "i \<le> 24" and "i = 0 \<longrightarrow> h1 = sample el t 0"
  shows "sweep el t i (seg_h0 el t i, h1, mr, ms) =
     (let ev = store_events i (seg_h0 el t i) (seg_fit el t i) (mr, ms)
      in if js_lt (fst ev) (Fin 24) \<and> js_lt (snd ev) (Fin 24) then ev
         else sweep el t (i + 2) (seg_h0 el t (i + 2), sample el t i, fst ev, snd ev))"
  using assms
  by (subst sweep.simps) (auto simp: Let_def seg_fit_def seg_h0_def)

lemma sweep_done: "24 < i \<Longrightarrow> sweep el t i (h0, h1, mr, ms) = (mr, ms)"
  by (subst sweep.simps) simp

lemma store_no_rise:
  "\<not> (roots p = 2 \<or> (roots p = 1 \<and> js_lt h0 (Fin 0))) \<Longrightarrow>
   fst (store_events i h0 p (NaN, ms)) = NaN"
  by (simp add: store_events_def Let_def)

lemma sweep_no_rise:
  assumes "\<forall>j. even j \<and> i \<le> j \<and> j \<le> 24 \<longrightarrow> \<not> rise_crossing el t j"
    and "even i" and "i = 0 \<longrightarrow> h1 = sample el t 0"
  shows "fst (sweep el t i (seg_h0 el t i, h1, NaN, ms)) = NaN"
  using assms
proof (induct "25 - i" arbitrary: i h1 ms rule: less_induct)
  case less
  show ?case
  proof (cases "i \<le> 24")
    case False
    then show ?thesis by (simp add: sweep_done)
  next
    case True
    let ?ev = "store_events i (seg_h0 el t i) (seg_fit el t i) (NaN, ms)"
    have "\<not> rise_crossing el t i" using less.prems True by blast
    then have nan: "fst ?ev = NaN"
      unfolding rise_crossing_def by (rule store_no_rise)
    have "fst (sweep el t (i + 2) (seg_h0 el t (i + 2), sample el t i, NaN, snd ?ev)) = NaN"
      using less.prems True by (intro less.hyps) auto
    then show ?thesis
      using True less.prems(3) nan by (simp add: sweep_step Let_def)
  qed
qed

lemma seg_roots_le: "roots (seg_fit el t i) \<le> 2"
  by (simp add: seg_fit_def fit_parabola_roots_le)

lemma in_segment_add_Fin: "in_segment v \<Longrightarrow> \<exists>x. js_add (Fin c) v = Fin x \<and> c - 1 \<le> x \<and> x \<le> c + 1"
  by (auto simp: in_segment_iff)

lemma store_no_root:
  "roots p \<noteq> 1 \<Longrightarrow> roots p \<noteq> 2 \<Longrightarrow> store_events i h0 p ev = ev"
  by (simp add: store_events_def Let_def)

lemma ev_ok_new: "i \<le> 24 \<Longrightarrow> in_segment v \<Longrightarrow> ev_ok (js_add (Fin (real i)) v)"
  using in_segment_add_Fin [of v "real i"] by (auto simp: ev_ok_iff)

lemma store_events_ok:
  assumes "i \<le> 24" and "ev_ok mr" and "ev_ok ms"
  shows "ev_ok (fst (store_events i h0 (fit_parabola h0 h1 h2) (mr, ms)))
       \<and> ev_ok (snd (store_events i h0 (fit_parabola h0 h1 h2) (mr, ms)))"
proof -
  let ?p = "fit_parabola h0 h1 h2"
  consider "roots ?p = 1" | "roots ?p = 2" | "roots ?p \<noteq> 1 \<and> roots ?p \<noteq> 2" by blast
  then show ?thesis
  proof cases
    case 1
    then have "ev_ok (js_add (Fin (real i)) (x1 ?p))"
      using assms(1) by (intro ev_ok_new fit_parabola_one_root)
    then show ?thesis using 1 assms by (simp add: store_events_def Let_def)
  next
    case 2
    then have "ev_ok (js_add (Fin (real i)) (x1 ?p))" "ev_ok (js_add (Fin (real i)) (x2 ?p))"
      using assms(1) fit_parabola_two_roots [OF 2] by (auto intro: ev_ok_new)
    then show ?thesis using 2 assms by (simp add: store_events_def Let_def)
  next
    case 3
    then show ?thesis using assms by (simp add: store_no_root)
  qed
qed

lemma sweep_ok:
  "ev_ok mr \<Longrightarrow> ev_ok ms \<Longrightarrow>
   ev_ok (fst (sweep el t i (h0, h1, mr, ms))) \<and> ev_ok (snd (sweep el t i (h0, h1, mr, ms)))"
proof (induct el t i "(h0, h1, mr, ms)" arbitrary: h0 h1 mr ms rule: sweep.induct)
  case (1 el t i h0 h1 mr ms)
  show ?case
  proof (cases "i \<le> 24")
    case False
    then show ?thesis using 1(2,3) by (simp add: sweep_done)
  next
    case True
    define h1' where "h1' = (if i \<noteq> 0 then sample el t i else h1)"
    define h2 where "h2 = sample el t (i + 1)"
    define ev where "ev = store_events i h0 (fit_parabola h0 h1' h2) (mr, ms)"
    have ok: "ev_ok (fst ev) \<and> ev_ok (snd ev)"
      unfolding ev_def using True 1(2,3) by (rule store_events_ok)
    have eq: "sweep el t i (h0, h1, mr, ms) =
        (if js_lt (fst ev) (Fin 24) \<and> js_lt (snd ev) (Fin 24) then ev
         else sweep el t (i + 2) (h2, h1', fst ev, snd ev))"
      using True by (subst sweep.simps) (simp add: Let_def ev_def h1'_def h2_def)
    show ?thesis
    proof (cases "js_lt (fst ev) (Fin 24) \<and> js_lt (snd ev) (Fin 24)")
      case True
      then show ?thesis using ok eq by simp
    next
      case False
      have rec: "ev_ok (fst (sweep el t (i + 2) (h2, h1', fst ev, snd ev)))
          \<and> ev_ok (snd (sweep el t (i + 2) (h2, h1', fst ev, snd ev)))"
        using \<open>i \<le> 24\<close> False ok
        by (intro 1(1) [OF _ h1'_def h2_def ev_def]) auto
      have "sweep el t i (h0, h1, mr, ms) = sweep el t (i + 2) (h2, h1', fst ev, snd ev)"
        unfolding eq using False by (rule if_not_P)
      then show ?thesis using rec by (simp only:)
    qed
  qed
qed

lemma initial_sample: "js_sub (el (Fin t)) (Fin (- PARALLAX)) = sample el t 0"
  by (simp add: sample_def hours_later_def)

lemma hours_later_NaN: "hours_later t NaN = NaN"
  by (simp add: hours_later_def)

lemma rise_and_set_of_sweep:
  "rise_and_set_of el t =
     \<lparr>moonrise = hours_later t (fst (sweep el t 0 (seg_h0 el t 0, sample el t 0, NaN, NaN))),
      moonset = hours_later t (snd (sweep el t 0 (seg_h0 el t 0, sample el t 0, NaN, NaN)))\<rparr>"
  by (simp add: rise_and_set_of_def Let_def initial_sample seg_h0_def)

lemma no_rise_crossing_no_moonrise:
  assumes "\<forall>j. even j \<and> j \<le> 24 \<longrightarrow> \<not> rise_crossing el t j"
  shows "moonrise (rise_and_set_of el t) = NaN"
proof -
  have "fst (sweep el t 0 (seg_h0 el t 0, sample el t 0, NaN, NaN)) = NaN"
    using assms by (intro sweep_no_rise) auto
  then show ?thesis
    by (simp add: rise_and_set_of_sweep hours_later_NaN)
qed

lemma hours_later_ok:
  assumes "ev_ok m" and "hours_later t m = Fin r"
  shows "t - 1 / 24 \<le> r \<and> r \<le> t + 25 / 24"
  using assms by (auto simp: ev_ok_iff hours_later_def)

lemma rise_and_set_of_ok:
  "ev_ok (fst (sweep el t 0 (seg_h0 el t 0, sample el t 0, NaN, NaN)))
   \<and> ev_ok (snd (sweep el t 0 (seg_h0 el t 0, sample el t 0, NaN, NaN)))"
  by (rule sweep_ok) (simp_all add: ev_ok_iff)

lemma sqrt_eq: "0 \<le> y \<Longrightarrow> y * y = x \<Longrightarrow> sqrt x = y"
  by (metis real_sqrt_abs2 abs_of_nonneg)

lemma sqrt_4_625: "sqrt (4 / 625) = 2 / 25"
  by (rule sqrt_eq) simp_all

lemma sqrt_1_2500: "sqrt (1 / 2500) = 1 / 50"
  by (rule sqrt_eq) simp_all

lemma sqrt_1_64: "sqrt (1 / 64) = 1 / 8"
  by (rule sqrt_eq) simp_all

lemma late_rise_sample:
  "sample late_rise_el 0 i = Fin (if real i \<le> 24 then - (3 / 100) else 5 / 100)"
  by (simp add: sample_def late_rise_el_def hours_later_def js_sub_def)

lemma late_rise_run:
  "rise_and_set_of late_rise_el 0 = \<lparr>moonrise = Fin (49 / 48), moonset = NaN\<rparr>"
  by (simp add: rise_and_set_of_def sweep.simps Let_def late_rise_sample store_events_def
      fit_parabola_def js_sub_def js_ge_def js_inf_of_sign_def sqrt_4_625 hours_later_def
      late_rise_el_def)

lemma just_risen_sample:
  "sample just_risen_el 0 i = Fin (if real i \<le> 0 then 24 / 1000 else 224 / 1000)"
  by (simp add: sample_def just_risen_el_def hours_later_def js_sub_def)

lemma just_risen_run:
  "rise_and_set_of just_risen_el 0 = \<lparr>moonrise = Fin (- (1 / 60)), moonset = Fin (- (1 / 40))\<rparr>"
  by (simp add: rise_and_set_of_def sweep.simps Let_def just_risen_sample store_events_def
      fit_parabola_def js_sub_def js_ge_def js_inf_of_sign_def sqrt_1_2500 hours_later_def
      just_risen_el_def)

lemma up_down_up_sample:
  "sample up_down_up_el 0 i =
     Fin (if real i \<le> 0 then - (3 / 64)
          else if real i \<le> 11 then 5 / 64
          else if real i \<le> 12 then 1 / 64
          else if real i \<le> 24 then - (3 / 64)
          else 5 / 64)"
  by (simp add: sample_def up_down_up_el_def hours_later_def js_sub_def)

lemma up_down_up_run:
  "rise_and_set_of up_down_up_el 0 = \<lparr>moonrise = Fin (1 / 48), moonset = Fin (49 / 48)\<rparr>"
  by (simp add: rise_and_set_of_def sweep.simps Let_def up_down_up_sample store_events_def
      fit_parabola_def js_sub_def js_ge_def js_inf_of_sign_def sqrt_1_64 hours_later_def
      up_down_up_el_def)

lemma up_down_up_fit_first:
  "fit_parabola (Fin (- (3 / 64))) (Fin (- (3 / 64))) (Fin (5 / 64))
     = \<lparr>roots = 1, x1 = Fin (1 / 2), x2 = Fin (1 / 2), ye = Fin (- (1 / 16))\<rparr>"
  by (simp add: fit_parabola_def js_sub_def js_ge_def Let_def sqrt_1_64)

lemma up_down_up_fit_flat:
  "fit_parabola (Fin c) (Fin c) (Fin c) = \<lparr>roots = 0, x1 = NaN, x2 = NaN, ye = NaN\<rparr>"
  by (simp add: fit_parabola_def js_sub_def js_ge_def js_inf_of_sign_def Let_def)

lemma up_down_up_fit_line:
  "fit_parabola (Fin (5 / 64)) (Fin (1 / 64)) (Fin (- (3 / 64)))
     = \<lparr>roots = 0, x1 = NaN, x2 = PosInf, ye = NaN\<rparr>"
  by (simp add: fit_parabola_def js_sub_def js_ge_def js_inf_of_sign_def Let_def)

lemma up_down_up_last_segment:
  "roots (seg_fit up_down_up_el 0 24) = 1 \<and> js_lt (seg_h0 up_down_up_el 0 24) (Fin 0)
   \<and> x1 (seg_fit up_down_up_el 0 24) = Fin (1 / 2)"
  by (simp add: seg_fit_def seg_h0_def up_down_up_sample up_down_up_fit_first)

lemma up_down_up_middle_segment:
  "roots (seg_fit up_down_up_el 0 12) = 0
   \<and> seg_h0 up_down_up_el 0 12 = Fin (5 / 64)
   \<and> sample up_down_up_el 0 12 = Fin (1 / 64)
   \<and> sample up_down_up_el 0 13 = Fin (- (3 / 64))"
  by (simp add: seg_fit_def seg_h0_def up_down_up_sample up_down_up_fit_line)

lemma up_down_up_no_set: "finds_no_set up_down_up_el 0"
  by (simp add: finds_no_set_def sweep_hours_def set_crossing_def seg_fit_def seg_h0_def
      up_down_up_sample up_down_up_fit_first up_down_up_fit_flat up_down_up_fit_line)

text \<open>
  C10. A finite rise or set instant lies between one hour before and 25 hours after
  the query instant, and both margins outside the 24-hour day are reached: a Moon
  that comes up between hours 24 and 25 is reported as rising 24.5 hours after the
  query instant, and a Moon that stands just above the threshold at the query
  instant and climbs is reported as having set 0.6 hours and risen 0.4 hours before
  it.
\<close>

theorem sweep_spans_minus_one_to_25:
  "(moonrise (rise_and_set_of el t) = Fin r \<longrightarrow> t - 1 / 24 \<le> r \<and> r \<le> t + 25 / 24)
   \<and> (moonset (rise_and_set_of el t) = Fin s \<longrightarrow> t - 1 / 24 \<le> s \<and> s \<le> t + 25 / 24)
   \<and> moonrise (rise_and_set_of late_rise_el 0) = Fin (0 + (24 + 1 / 2) / 24)
   \<and> moonset (rise_and_set_of just_risen_el 0) = Fin (0 - (3 / 5) / 24)
   \<and> moonrise (rise_and_set_of just_risen_el 0) = Fin (0 - (2 / 5) / 24)"
proof -
  have "moonrise (rise_and_set_of el t) = Fin r \<longrightarrow> t - 1 / 24 \<le> r \<and> r \<le> t + 25 / 24"
    using rise_and_set_of_ok [of el t]
    by (auto simp: rise_and_set_of_sweep dest: hours_later_ok)
  moreover
  have "moonset (rise_and_set_of el t) = Fin s \<longrightarrow> t - 1 / 24 \<le> s \<and> s \<le> t + 25 / 24"
    using rise_and_set_of_ok [of el t]
    by (auto simp: rise_and_set_of_sweep dest: hours_later_ok)
  ultimately show ?thesis
    by (simp add: late_rise_run just_risen_run)
qed

theorem sweep_spans_minus_one_to_25_witness:
  "moonrise (rise_and_set_of late_rise_el 0) = Fin (49 / 48)
   \<and> moonset (rise_and_set_of just_risen_el 0) = Fin (- (1 / 40))
   \<and> (0::real) - 1 / 24 \<le> 49 / 48 \<and> (49::real) / 48 \<le> 0 + 25 / 24
   \<and> (0::real) - 1 / 24 \<le> - (1 / 40) \<and> - (1::real) / 40 \<le> 0 + 25 / 24"
  using sweep_spans_minus_one_to_25 [of late_rise_el 0 "49 / 48" "- (1 / 40)"]
    sweep_spans_minus_one_to_25 [of just_risen_el 0 "- (1 / 60)" "- (1 / 40)"]
  by (simp add: late_rise_run just_risen_run)

lemma store_one_root_after_rise:
  "roots p = 1 \<Longrightarrow> js_lt h0 (Fin 0) \<Longrightarrow> \<not> isNaN mr \<Longrightarrow> isNaN ms \<Longrightarrow>
   store_events i h0 p (mr, ms) = (mr, js_add (Fin (real i)) (x1 p))"
  by (simp add: store_events_def Let_def)

text \<open>
  C3, at a failing run. With the profile \<open>up_down_up_el\<close> the segment at hour 24 has
  exactly one root, at 24.5 hours, and a negative first sample: an upward crossing.
  The rise found at 0.5 hours is already held and no set is, so the one-root branch
  falls through to its \<open>else\<close> and stores the crossing at 24.5 hours as the moonset.
  (No set is held because the downward crossing at 12.25 hours is not counted: the
  samples \<open>5/64\<close>, \<open>1/64\<close>, \<open>-3/64\<close> of the segment at hour 12 lie on a line, the
  leading coefficient is zero and the division by it leaves no root.)
\<close>

theorem one_root_rise_stored_as_set:
  "rise_and_set_of up_down_up_el 0
     = \<lparr>moonrise = Fin ((1 / 2) / 24), moonset = Fin ((24 + 1 / 2) / 24)\<rparr>
   \<and> roots (seg_fit up_down_up_el 0 24) = 1
   \<and> js_lt (seg_h0 up_down_up_el 0 24) (Fin 0)
   \<and> x1 (seg_fit up_down_up_el 0 24) = Fin (1 / 2)
   \<and> store_events 24 (Fin (- (3 / 64)))
        (fit_parabola (Fin (- (3 / 64))) (Fin (- (3 / 64))) (Fin (5 / 64))) (Fin (1 / 2), NaN)
       = (Fin (1 / 2), Fin (24 + 1 / 2))
   \<and> roots (seg_fit up_down_up_el 0 12) = 0
   \<and> seg_h0 up_down_up_el 0 12 = Fin (5 / 64)
   \<and> sample up_down_up_el 0 12 = Fin (1 / 64)
   \<and> sample up_down_up_el 0 13 = Fin (- (3 / 64))"
  using up_down_up_last_segment up_down_up_middle_segment
  by (simp add: up_down_up_run up_down_up_fit_first store_events_def)

text \<open>
  C5, at a failing run. With the profile \<open>up_down_up_el\<close> no segment of the sweep
  holds a set, and yet the moonset output is finite: it is the upward crossing at
  24.5 hours that the one-root branch stores as the moonset (the run of C3). The
  rise half of the claim holds for every elevation: when no segment holds a rise,
  the moonrise output is NaN.
\<close>

theorem finite_moonset_without_set:
  "finds_no_set up_down_up_el 0
   \<and> moonset (rise_and_set_of up_down_up_el 0) = Fin ((24 + 1 / 2) / 24)"
  using up_down_up_no_set by (simp add: up_down_up_run)

section \<open>Exported rise and set\<close>

text \<open>
  C9. The standalone rise query is the moonrise field of the combined query, and the
  standalone set query is its moonset field, NaN included.
\<close>

theorem rise_set_match_combined:
  "rise jt jf sl ms lat lon = moonrise (rise_and_set jt jf sl ms lat lon)
   \<and> set_js jt jf sl ms lat lon = moonset (rise_and_set jt jf sl ms lat lon)"
  by (simp add: rise_def set_js_def rise_and_set_def Let_def)

end
